theory Spec2Isabelle
  imports Main "HOL-Library.Word" "HOL-Library.Sublist"
begin

section \<open>The order ledger: contracts/OrderV1.sol\<close>

subsection \<open>Value types\<close>

type_synonym address = "160 word"
type_synonym uint = "256 word"
type_synonym uint32 = "32 word"
type_synonym uint8 = "8 word"

text \<open>A \<^verbatim>\<open>bytes32\<close> value is kept as its sequence of bytes. The conversion
  \<^verbatim>\<open>bytes32("...")\<close> of a string literal is left-aligned and padded with zero bytes on
  the right (the compiler refuses a literal of more than 32 bytes; \<open>take\<close> only keeps the
  function total).\<close>

type_synonym bytes32 = "char list"

definition bytes32 :: "string \<Rightarrow> bytes32" where
  "bytes32 lit = take 32 lit @ replicate (32 - length lit) (CHR 0x00)"

record Meta =
  product :: bytes32
  amount :: uint
  revoked :: bool

text \<open>\<^verbatim>\<open>struct Record { address who; bytes32 action; uint32 when; }\<close>\<close>

record Record =
  who :: address
  action :: bytes32
  rec_when :: uint32

text \<open>\<^verbatim>\<open>struct Location { bytes32 latitude; bytes32 longitude; address who; }\<close>\<close>

record Location =
  latitude :: bytes32
  longitude :: bytes32
  loc_who :: address

datatype State =
  Ordered | Approved | Audited | AtWarehouse | WarehouseReleased | InTransit | Delivered | Revoked

text \<open>\<^verbatim>\<open>enum SubState { None, Pending, InTransit }\<close>\<close>

datatype SubState = SubNone | SubPending | SubInTransit

datatype error = Unauthorized | InvalidState | OutOfRange | Transport string | TypeError string

subsection \<open>Storage\<close>

text \<open>Modelled from the spec: the base contract \<^verbatim>\<open>OrderAccessControl.sol\<close> is imported by
  \<^verbatim>\<open>OrderV1.sol\<close> but is not among the sources. The specification (sections 3 and 4.2)
  gives it the creator address, one authorised address for each of the five roles, and an
  owner set of fixed capacity 5.\<close>

record OrderAccessControl =
  contractCreator :: address
  farmer :: address
  auditor :: address
  warehouse :: address
  distributor :: address
  supermarket :: address
  owners :: "address list"

text \<open>\<^verbatim>\<open>contract OrderV1 is OrderAccessControl\<close>: the storage of the derived contract
  extends the storage of the base contract.\<close>

record OrderV1 = OrderAccessControl +
  meta :: Meta
  history :: "Record list"
  locationHistory :: "Location list"
  state :: State
  subState :: SubState

text \<open>The part of the transaction context the contract reads: \<^verbatim>\<open>msg.sender\<close> and the
  block timestamp \<^verbatim>\<open>now\<close>.\<close>

record Msg =
  sender :: address
  now :: uint

subsection \<open>Guards\<close>

text \<open>Modelled from the spec: the modifiers of \<^verbatim>\<open>OrderAccessControl.sol\<close> (not among the
  sources). Section 4.2: each guard fails the enclosing call with an authorisation error
  when the caller's address does not match the required role's configured address;
  \<^verbatim>\<open>onlyFarmerOrAuditor\<close> is the compound guard and \<^verbatim>\<open>onlyContractOwners\<close> the
  owner-set guard.\<close>

definition onlyFarmer :: "Msg \<Rightarrow> OrderV1 \<Rightarrow> bool" where
  "onlyFarmer m s = (sender m = farmer s)"

definition onlyAuditor :: "Msg \<Rightarrow> OrderV1 \<Rightarrow> bool" where
  "onlyAuditor m s = (sender m = auditor s)"

definition onlyWarehouse :: "Msg \<Rightarrow> OrderV1 \<Rightarrow> bool" where
  "onlyWarehouse m s = (sender m = warehouse s)"

definition onlyDistributor :: "Msg \<Rightarrow> OrderV1 \<Rightarrow> bool" where
  "onlyDistributor m s = (sender m = distributor s)"

definition onlySupermarket :: "Msg \<Rightarrow> OrderV1 \<Rightarrow> bool" where
  "onlySupermarket m s = (sender m = supermarket s)"

definition onlyFarmerOrAuditor :: "Msg \<Rightarrow> OrderV1 \<Rightarrow> bool" where
  "onlyFarmerOrAuditor m s = (sender m = farmer s \<or> sender m = auditor s)"

definition onlyContractOwners :: "Msg \<Rightarrow> OrderV1 \<Rightarrow> bool" where
  "onlyContractOwners m s = (sender m \<in> set (owners s))"

text \<open>\<^verbatim>\<open>modifier inState(State _state) { require(state == _state, "Invalid state."); _; }\<close>\<close>

definition inState :: "State \<Rightarrow> OrderV1 \<Rightarrow> bool" where
  "inState st s = (state s = st)"

subsection \<open>Constructor and record keeping\<close>

text \<open>The constructor writes the creator, the metadata and the two state fields. The
  argument \<open>acl\<close> is the storage as the base contract leaves it (the role addresses and
  the owner slots), which this constructor does not touch.\<close>

definition constructor :: "bytes32 \<Rightarrow> uint \<Rightarrow> address \<Rightarrow> OrderAccessControl \<Rightarrow> OrderV1" where
  "constructor prd amt creator acl =
     \<lparr> contractCreator = creator,
       farmer = farmer acl, auditor = auditor acl, warehouse = warehouse acl,
       distributor = distributor acl, supermarket = supermarket acl,
       owners = owners acl,
       meta = \<lparr> product = prd, amount = amt, revoked = False \<rparr>,
       history = [], locationHistory = [],
       state = Ordered, subState = SubNone \<rparr>"

text \<open>\<^verbatim>\<open>history.push(Record({who: msg.sender, action: action, when: uint32(now)}))\<close>;
  the conversion \<^verbatim>\<open>uint32(now)\<close> keeps the low 32 bits.\<close>

definition addRecord :: "bytes32 \<Rightarrow> Msg \<Rightarrow> OrderV1 \<Rightarrow> OrderV1" where
  "addRecord act m s =
     s\<lparr> history := history s @ [\<lparr> who = sender m, action = act, rec_when = ucast (now m) \<rparr>] \<rparr>"

subsection \<open>The order form\<close>

text \<open>A call either reverts (\<open>Inl\<close>) or returns the storage it leaves. The modifiers run
  in the order they are written: the role guard first, then \<^verbatim>\<open>inState\<close>.\<close>

definition approve :: "Msg \<Rightarrow> OrderV1 \<Rightarrow> error + OrderV1" where
  "approve m s =
     (if \<not> onlyFarmer m s then Inl Unauthorized
      else if \<not> inState Ordered s then Inl InvalidState
      else Inr ((addRecord (bytes32 ''Approved'') m s)\<lparr> state := Approved \<rparr>))"

definition validated :: "Msg \<Rightarrow> OrderV1 \<Rightarrow> error + OrderV1" where
  "validated m s =
     (if \<not> onlyAuditor m s then Inl Unauthorized
      else if \<not> inState Approved s then Inl InvalidState
      else Inr ((addRecord (bytes32 ''Audited'') m s)\<lparr> state := Audited \<rparr>))"

definition storeAuditDocument :: "Msg \<Rightarrow> OrderV1 \<Rightarrow> error + OrderV1" where
  "storeAuditDocument m s =
     (if \<not> onlyAuditor m s then Inl Unauthorized
      else if \<not> inState Audited s then Inl InvalidState
      else Inr (addRecord (bytes32 ''Stored document'') m s))"

definition warehouseReceivedOrder :: "Msg \<Rightarrow> OrderV1 \<Rightarrow> error + OrderV1" where
  "warehouseReceivedOrder m s =
     (if \<not> onlyWarehouse m s then Inl Unauthorized
      else if \<not> inState Audited s then Inl InvalidState
      else Inr (addRecord (bytes32 ''Received'') m (s\<lparr> state := AtWarehouse \<rparr>)))"

definition warehouseReleasedOrder :: "Msg \<Rightarrow> OrderV1 \<Rightarrow> error + OrderV1" where
  "warehouseReleasedOrder m s =
     (if \<not> onlyWarehouse m s then Inl Unauthorized
      else if \<not> inState AtWarehouse s then Inl InvalidState
      else Inr (addRecord (bytes32 ''Released'') m (s\<lparr> state := WarehouseReleased \<rparr>)))"

definition receivedAndInTransit :: "Msg \<Rightarrow> OrderV1 \<Rightarrow> error + OrderV1" where
  "receivedAndInTransit m s =
     (if \<not> onlyDistributor m s then Inl Unauthorized
      else if \<not> inState WarehouseReleased s then Inl InvalidState
      else Inr ((addRecord (bytes32 ''In Transit'') m s)\<lparr> state := InTransit \<rparr>))"

definition confirmDelivery :: "Msg \<Rightarrow> OrderV1 \<Rightarrow> error + OrderV1" where
  "confirmDelivery m s =
     (if \<not> onlySupermarket m s then Inl Unauthorized
      else if \<not> inState InTransit s then Inl InvalidState
      else Inr ((addRecord (bytes32 ''Confirmed Delivery'') m s)\<lparr> state := Delivered \<rparr>))"

text \<open>\<^verbatim>\<open>revoke\<close> carries the role guard only: there is no \<^verbatim>\<open>inState\<close> modifier on it.\<close>

definition revoke :: "Msg \<Rightarrow> OrderV1 \<Rightarrow> error + OrderV1" where
  "revoke m s =
     (if \<not> onlyFarmerOrAuditor m s then Inl Unauthorized
      else Inr (s\<lparr> state := Revoked, meta := (meta s)\<lparr> revoked := True \<rparr> \<rparr>))"

subsection \<open>Storage reads and location updates\<close>

definition getHistoryLength :: "OrderV1 \<Rightarrow> nat" where
  "getHistoryLength s = length (history s)"

definition updateLocation :: "bytes32 \<Rightarrow> bytes32 \<Rightarrow> Msg \<Rightarrow> OrderV1 \<Rightarrow> error + OrderV1" where
  "updateLocation lat lon m s =
     (if \<not> onlyContractOwners m s then Inl Unauthorized
      else Inr (s\<lparr> locationHistory :=
                    locationHistory s @ [\<lparr> latitude = lat, longitude = lon, loc_who = sender m \<rparr>] \<rparr>))"

definition getLocationLength :: "OrderV1 \<Rightarrow> nat" where
  "getLocationLength s = length (locationHistory s)"

text \<open>Modelled from the spec: \<^verbatim>\<open>setOwners\<close> of \<^verbatim>\<open>OrderAccessControl.sol\<close> (not among the
  sources). Section 4.2: a mutator that replaces the owner set (fixed capacity 5,
  caller-supplied addresses, no access restriction observed).\<close>

definition setOwners ::
  "address \<Rightarrow> address \<Rightarrow> address \<Rightarrow> address \<Rightarrow> address \<Rightarrow> Msg \<Rightarrow> OrderV1 \<Rightarrow> error + OrderV1" where
  "setOwners a1 a2 a3 a4 a5 m s = Inr (s\<lparr> owners := [a1, a2, a3, a4, a5] \<rparr>)"

subsection \<open>Transactions\<close>

text \<open>The eight calls of the order form, and all the mutating calls of the contract.\<close>

datatype transition =
  Approve | Validated | StoreAuditDocument | WarehouseReceivedOrder | WarehouseReleasedOrder
  | ReceivedAndInTransit | ConfirmDelivery | Revoke

datatype call =
  Transition transition
  | SetOwners address address address address address
  | UpdateLocation bytes32 bytes32

fun invoke :: "transition \<Rightarrow> Msg \<Rightarrow> OrderV1 \<Rightarrow> error + OrderV1" where
  "invoke Approve = approve"
| "invoke Validated = validated"
| "invoke StoreAuditDocument = storeAuditDocument"
| "invoke WarehouseReceivedOrder = warehouseReceivedOrder"
| "invoke WarehouseReleasedOrder = warehouseReleasedOrder"
| "invoke ReceivedAndInTransit = receivedAndInTransit"
| "invoke ConfirmDelivery = confirmDelivery"
| "invoke Revoke = revoke"

fun dispatch :: "call \<Rightarrow> Msg \<Rightarrow> OrderV1 \<Rightarrow> error + OrderV1" where
  "dispatch (Transition t) = invoke t"
| "dispatch (SetOwners a1 a2 a3 a4 a5) = setOwners a1 a2 a3 a4 a5"
| "dispatch (UpdateLocation lat lon) = updateLocation lat lon"

text \<open>The storage after a transaction: a reverted call leaves the storage as it was
  before the call (the ledger discards every write of a reverted call).\<close>

definition transact :: "call \<Rightarrow> Msg \<Rightarrow> OrderV1 \<Rightarrow> OrderV1" where
  "transact c m s = (case dispatch c m s of Inl e \<Rightarrow> s | Inr s' \<Rightarrow> s')"

text \<open>A sequence of transactions in the order the ledger commits them, reverted ones
  included.\<close>

fun replay :: "(call \<times> Msg) list \<Rightarrow> OrderV1 \<Rightarrow> OrderV1" where
  "replay [] s = s"
| "replay ((c, m) # cs) s = replay cs (transact c m s)"

text \<open>A sequence of transactions all of which succeed; the first revert is reported.\<close>

fun run_calls :: "(call \<times> Msg) list \<Rightarrow> OrderV1 \<Rightarrow> error + OrderV1" where
  "run_calls [] s = Inr s"
| "run_calls ((c, m) # cs) s =
     (case dispatch c m s of Inl e \<Rightarrow> Inl e | Inr s' \<Rightarrow> run_calls cs s')"

subsection \<open>The transition table of the specification (section 4.1)\<close>

datatype role = Farmer | Auditor | Warehouse | Distributor | Supermarket

fun role_address :: "role \<Rightarrow> OrderV1 \<Rightarrow> address" where
  "role_address Farmer s = farmer s"
| "role_address Auditor s = auditor s"
| "role_address Warehouse s = warehouse s"
| "role_address Distributor s = distributor s"
| "role_address Supermarket s = supermarket s"

text \<open>Column "Required role"; \<^verbatim>\<open>revoke\<close> accepts either of two roles.\<close>

fun table_roles :: "transition \<Rightarrow> role list" where
  "table_roles Approve = [Farmer]"
| "table_roles Validated = [Auditor]"
| "table_roles StoreAuditDocument = [Auditor]"
| "table_roles WarehouseReceivedOrder = [Warehouse]"
| "table_roles WarehouseReleasedOrder = [Warehouse]"
| "table_roles ReceivedAndInTransit = [Distributor]"
| "table_roles ConfirmDelivery = [Supermarket]"
| "table_roles Revoke = [Farmer, Auditor]"

text \<open>Column "Precondition"; \<open>None\<close> is the entry "any".\<close>

fun table_precondition :: "transition \<Rightarrow> State option" where
  "table_precondition Approve = Some Ordered"
| "table_precondition Validated = Some Approved"
| "table_precondition StoreAuditDocument = Some Audited"
| "table_precondition WarehouseReceivedOrder = Some Audited"
| "table_precondition WarehouseReleasedOrder = Some AtWarehouse"
| "table_precondition ReceivedAndInTransit = Some WarehouseReleased"
| "table_precondition ConfirmDelivery = Some InTransit"
| "table_precondition Revoke = None"

text \<open>Column "History label"; \<open>None\<close> is the entry "(none recorded)".\<close>

fun table_label :: "transition \<Rightarrow> string option" where
  "table_label Approve = Some ''Approved''"
| "table_label Validated = Some ''Audited''"
| "table_label StoreAuditDocument = Some ''Stored document''"
| "table_label WarehouseReceivedOrder = Some ''Received''"
| "table_label WarehouseReleasedOrder = Some ''Released''"
| "table_label ReceivedAndInTransit = Some ''In Transit''"
| "table_label ConfirmDelivery = Some ''Confirmed Delivery''"
| "table_label Revoke = None"

text \<open>Column "New state"; \<open>None\<close> is the entry "unchanged".\<close>

fun table_successor :: "transition \<Rightarrow> State option" where
  "table_successor Approve = Some Approved"
| "table_successor Validated = Some Audited"
| "table_successor StoreAuditDocument = None"
| "table_successor WarehouseReceivedOrder = Some AtWarehouse"
| "table_successor WarehouseReleasedOrder = Some WarehouseReleased"
| "table_successor ReceivedAndInTransit = Some InTransit"
| "table_successor ConfirmDelivery = Some Delivered"
| "table_successor Revoke = Some Revoked"

text \<open>The caller holds (one of) the role(s) the table requires for the transition.\<close>

definition holds_required_role :: "transition \<Rightarrow> Msg \<Rightarrow> OrderV1 \<Rightarrow> bool" where
  "holds_required_role t m s = (sender m \<in> set (map (\<lambda>r. role_address r s) (table_roles t)))"

text \<open>The order is in the state the table requires for the transition.\<close>

definition in_precondition_state :: "transition \<Rightarrow> OrderV1 \<Rightarrow> bool" where
  "in_precondition_state t s =
     (case table_precondition t of None \<Rightarrow> True | Some q \<Rightarrow> state s = q)"

subsection \<open>A concrete ledger\<close>

text \<open>An access-control configuration with five distinct role addresses, an order of ten
  units created over it, and a transaction context for a sender and a block time.\<close>

definition example_acl :: OrderAccessControl where
  "example_acl = \<lparr> contractCreator = 0, farmer = 1, auditor = 2, warehouse = 3,
     distributor = 4, supermarket = 5, owners = [0, 0, 0, 0, 0] \<rparr>"

definition example_order :: OrderV1 where
  "example_order = constructor (bytes32 ''Apples'') 10 9 example_acl"

definition msg_from :: "address \<Rightarrow> uint \<Rightarrow> Msg" where
  "msg_from a t = \<lparr> sender = a, now = t \<rparr>"

text \<open>The six state-changing transitions in lifecycle order, each sent by the address that
  holds its role.\<close>

definition example_lifecycle :: "(call \<times> Msg) list" where
  "example_lifecycle =
     [(Transition Approve, msg_from 1 100),
      (Transition Validated, msg_from 2 101),
      (Transition WarehouseReceivedOrder, msg_from 3 102),
      (Transition WarehouseReleasedOrder, msg_from 3 103),
      (Transition ReceivedAndInTransit, msg_from 4 104),
      (Transition ConfirmDelivery, msg_from 5 105)]"

definition example_delivered :: OrderV1 where
  "example_delivered = replay example_lifecycle example_order"

text \<open>The order after the farmer's approval, and that order revoked.\<close>

definition example_approved :: OrderV1 where
  "example_approved = transact (Transition Approve) (msg_from 1 100) example_order"

definition example_revoked :: OrderV1 where
  "example_revoked =
     example_approved\<lparr> state := Revoked, meta := (meta example_approved)\<lparr> revoked := True \<rparr> \<rparr>"

subsection \<open>The invariant of the revoked flag\<close>

definition revoked_matches_state :: "OrderV1 \<Rightarrow> bool" where
  "revoked_matches_state s = (revoked (meta s) = (state s = Revoked))"

section \<open>The gateway: src/app/core/blockchain/blockchain.service.ts\<close>

subsection \<open>Promises\<close>

text \<open>A promise is modelled by how it settles: fulfilled with a value, rejected with an
  error, or never settled.\<close>

datatype 'a promise = Fulfilled 'a | Rejected error | Pending

text \<open>\<^verbatim>\<open>p.then(f)\<close>, for a callback \<open>f\<close> that returns a promise (a callback that returns a
  plain value \<open>v\<close> returns \<open>Fulfilled v\<close>).\<close>

definition then_p :: "'a promise \<Rightarrow> ('a \<Rightarrow> 'b promise) \<Rightarrow> 'b promise" where
  "then_p p f = (case p of Fulfilled v \<Rightarrow> f v | Rejected e \<Rightarrow> Rejected e | Pending \<Rightarrow> Pending)"

text \<open>A remote call reports through a callback \<^verbatim>\<open>function(error, value)\<close>; its outcome
  is \<open>Inl error\<close> or \<open>Inr value\<close>. \<^verbatim>\<open>callbackToResolve(resolve, reject)\<close> rejects the
  enclosing promise on an error and resolves it with the value otherwise.\<close>

definition callbackToResolve :: "error + 'a \<Rightarrow> 'a promise" where
  "callbackToResolve outcome = (case outcome of Inl err \<Rightarrow> Rejected err | Inr v \<Rightarrow> Fulfilled v)"

text \<open>\<^verbatim>\<open>Promise.all\<close> of two promises of different types: rejected when one of them is
  rejected, fulfilled with both values when both are fulfilled, never settled otherwise.
  When both are rejected the error is that of whichever rejects first in time; the model
  takes the left one, and no property below depends on which error it is.\<close>

fun both :: "'a promise \<Rightarrow> 'b promise \<Rightarrow> ('a \<times> 'b) promise" where
  "both (Rejected e) q = Rejected e"
| "both p (Rejected e) = Rejected e"
| "both Pending q = Pending"
| "both p Pending = Pending"
| "both (Fulfilled a) (Fulfilled b) = Fulfilled (a, b)"

text \<open>\<^verbatim>\<open>Promise.all\<close> of a list of promises, in the same way: the values in the order of
  the promises passed.\<close>

fun promise_all :: "'a promise list \<Rightarrow> 'a list promise" where
  "promise_all [] = Fulfilled []"
| "promise_all (p # ps) = then_p (both p (promise_all ps)) (\<lambda>(v, vs). Fulfilled (v # vs))"

text \<open>\<^verbatim>\<open>Promise.all\<close> with the completion order of its promises made explicit. The list
  \<open>completion\<close> names the positions of the promises in the order in which they settle
  (a position that never settles does not occur in it). Each fulfilment stores its value
  in the slot of its position; the result is fulfilled with the slots, in position order,
  once every slot is filled; the first rejection rejects the result.\<close>

fun all_settle :: "'a promise list \<Rightarrow> nat list \<Rightarrow> 'a option list \<Rightarrow> 'a list promise" where
  "all_settle ps [] slots = Pending"
| "all_settle ps (k # completion) slots =
     (if length ps \<le> k then all_settle ps completion slots
      else case ps ! k of
             Rejected e \<Rightarrow> Rejected e
           | Pending \<Rightarrow> all_settle ps completion slots
           | Fulfilled v \<Rightarrow>
               (case those (slots[k := Some v]) of
                  Some vs \<Rightarrow> Fulfilled vs
                | None \<Rightarrow> all_settle ps completion (slots[k := Some v])))"

definition promise_all_in :: "nat list \<Rightarrow> 'a promise list \<Rightarrow> 'a list promise" where
  "promise_all_in completion ps =
     (if ps = [] then Fulfilled [] else all_settle ps completion (replicate (length ps) None))"

subsection \<open>Library functions the gateway calls\<close>

text \<open>Modelled from the spec: \<^verbatim>\<open>sequentialArray\<close> of \<^verbatim>\<open>shared/utils\<close> (not among the
  sources). Sections 4.4: the window \<^verbatim>\<open>[startIndex, min(total, startIndex+pageSize))\<close>
  of a page, and one \<^verbatim>\<open>history(i)\<close> read per index \<^verbatim>\<open>0..length\<close>: the \<open>count\<close> consecutive
  integers from \<open>start\<close>, none when the count is not positive.\<close>

definition sequentialArray :: "int \<Rightarrow> int \<Rightarrow> int list" where
  "sequentialArray start count = map (\<lambda>k. start + int k) [0..<nat count]"

text \<open>\<^verbatim>\<open>web3.toUtf8\<close>: the bytes up to the first zero byte, read as text.\<close>

definition toUtf8 :: "bytes32 \<Rightarrow> string" where
  "toUtf8 b = takeWhile (\<lambda>c. c \<noteq> CHR 0x00) b"

subsection \<open>Contract handles and the hydrated order\<close>

type_synonym txhash = string

text \<open>A web3 contract instance of an order, given by the outcome of each call made on it:
  the reads \<^verbatim>\<open>meta\<close>, \<^verbatim>\<open>state\<close>, \<^verbatim>\<open>getHistoryLength\<close> and \<^verbatim>\<open>history(i)\<close>, the
  transaction \<^verbatim>\<open>setOwners\<close>, and the transaction \<^verbatim>\<open>contract[methodName]\<close>, which is
  \<open>None\<close> for a name the contract does not have.\<close>

record Contract =
  call_meta :: "error + (bytes32 \<times> uint \<times> bool)"
  call_state :: "error + uint8"
  call_getHistoryLength :: "error + nat"
  call_history :: "int \<Rightarrow> error + (address \<times> bytes32 \<times> uint32)"
  send_setOwners :: "address list \<Rightarrow> error + txhash"
  send_method :: "string \<Rightarrow> (error + txhash) option"

text \<open>\<^verbatim>\<open>interface OrderHistory\<close> and \<^verbatim>\<open>class Order\<close> of \<^verbatim>\<open>order/order\<close>, with the fields
  the gateway writes.\<close>

record OrderHistory =
  h_action :: string
  h_owner :: address
  transactionId :: string

record OrderModel =
  order_id :: address
  contract :: Contract
  order_history :: "OrderHistory list"
  order_amount :: uint
  order_product :: string
  status :: nat
  statusLabel :: "string option"

record OrdersResponse =
  resp_orders :: "OrderModel list"
  resp_total :: nat

text \<open>The registry contract instance: the outcomes of \<^verbatim>\<open>getAmount()\<close> and \<^verbatim>\<open>orders(i)\<close>.\<close>

record OrdersContract =
  call_getAmount :: "error + nat"
  call_orders :: "int \<Rightarrow> error + address"

text \<open>The service object: the promise of the account lookup started by the constructor,
  the registry instance, the sending account \<^verbatim>\<open>this.from\<close>, the contract instance
  \<^verbatim>\<open>web3.eth.contract(orderABI).at(address)\<close> for each address, and the enumeration
  \<^verbatim>\<open>OrderStatus\<close> (declared in \<^verbatim>\<open>order/order\<close>, not among the sources), as the map from
  a number to its name.\<close>

record BlockchainService =
  servicePromise :: "unit promise"
  ordersContract :: OrdersContract
  from_account :: address
  contract_at :: "address \<Rightarrow> Contract"
  OrderStatus :: "nat \<Rightarrow> string option"

subsection \<open>Hydration\<close>

definition getHistoryLength_svc :: "Contract \<Rightarrow> nat promise" where
  "getHistoryLength_svc c = callbackToResolve (call_getHistoryLength c)"

definition getHistoryRecord :: "Contract \<Rightarrow> int \<Rightarrow> OrderHistory promise" where
  "getHistoryRecord c index =
     then_p (callbackToResolve (call_history c index))
       (\<lambda>(r0, r1, r2). Fulfilled \<lparr> h_action = toUtf8 r1, h_owner = r0,
                                   transactionId = ''0x4534534534abec533'' \<rparr>)"

definition getHistory :: "Contract \<Rightarrow> OrderHistory list promise" where
  "getHistory c =
     then_p (getHistoryLength_svc c)
       (\<lambda>historyLength.
          if historyLength > 0
          then promise_all (map (getHistoryRecord c) (sequentialArray 0 (int historyLength)))
          else Fulfilled [])"

text \<open>\<^verbatim>\<open>buildOrder\<close> starts the three loads and waits for all of them. Each load writes
  its fields into the one order object when it is fulfilled, and the object is handed out
  only by the callback of \<^verbatim>\<open>Promise.all\<close>, so the model builds the order there.
  \<^verbatim>\<open>parseInt(status, 10)\<close> is the number the ledger returned.\<close>

definition buildOrder :: "(nat \<Rightarrow> string option) \<Rightarrow> Contract \<Rightarrow> address \<Rightarrow> OrderModel promise" where
  "buildOrder labels c addr =
     (let loadHistory = getHistory c;
          loadMeta = callbackToResolve (call_meta c);
          loadStatus = callbackToResolve (call_state c)
      in then_p (both loadHistory (both loadMeta loadStatus))
           (\<lambda>(hist, (m0, m1, m2), st).
              Fulfilled \<lparr> order_id = addr, contract = c, order_history = hist,
                          order_amount = m1, order_product = toUtf8 m0,
                          status = unat st, statusLabel = labels (unat st) \<rparr>))"

definition getOrderByAddress :: "BlockchainService \<Rightarrow> address \<Rightarrow> OrderModel promise" where
  "getOrderByAddress svc addr =
     then_p (buildOrder (OrderStatus svc) (contract_at svc addr) addr) (\<lambda>order. Fulfilled order)"

subsection \<open>Registry reads and the page listing\<close>

text \<open>\<^verbatim>\<open>callWithPromise\<close> waits for the account lookup and then makes the call on the
  registry instance; the argument is the outcome of that call.\<close>

definition callWithPromise :: "BlockchainService \<Rightarrow> error + 'a \<Rightarrow> 'a promise" where
  "callWithPromise svc outcome = then_p (servicePromise svc) (\<lambda>_. callbackToResolve outcome)"

text \<open>\<^verbatim>\<open>order(index)\<close> and \<^verbatim>\<open>orders(startIndex, pageSize)\<close> of the service are named
  \<open>order_svc\<close> and \<open>orders_svc\<close> here.\<close>

definition order_svc :: "BlockchainService \<Rightarrow> int \<Rightarrow> address promise" where
  "order_svc svc index = callWithPromise svc (call_orders (ordersContract svc) index)"

definition orderCount :: "BlockchainService \<Rightarrow> nat promise" where
  "orderCount svc = callWithPromise svc (call_getAmount (ordersContract svc))"

definition getOrder :: "BlockchainService \<Rightarrow> int \<Rightarrow> OrderModel promise" where
  "getOrder svc index =
     then_p (servicePromise svc) (\<lambda>_. then_p (order_svc svc index) (getOrderByAddress svc))"

text \<open>The argument \<open>completion\<close> is the order in which the hydrations of the page settle.\<close>

definition orders_svc :: "BlockchainService \<Rightarrow> nat list \<Rightarrow> int \<Rightarrow> int \<Rightarrow> OrdersResponse promise" where
  "orders_svc svc completion startIndex pageSize =
     then_p (orderCount svc)
       (\<lambda>total.
          if total > 0
          then (let maxIndex = min (int total) (startIndex + pageSize);
                    indices = sequentialArray startIndex (maxIndex - startIndex);
                    orderPromises = map (getOrder svc) indices
                in then_p (promise_all_in completion orderPromises)
                     (\<lambda>os. Fulfilled \<lparr> resp_orders = os, resp_total = total \<rparr>))
          else Fulfilled \<lparr> resp_orders = [], resp_total = total \<rparr>)"

subsection \<open>Sending an action\<close>

definition setOwners_svc :: "OrderModel \<Rightarrow> address \<Rightarrow> txhash promise" where
  "setOwners_svc order userAddress =
     callbackToResolve (send_setOwners (contract order) (replicate 5 userAddress))"

text \<open>What a call of \<^verbatim>\<open>sendOrder\<close> leaves behind: how the returned promise settles (with
  the updated order, or with \<^verbatim>\<open>undefined\<close>, here \<open>None\<close>), the errors written by
  \<^verbatim>\<open>console.error\<close>, and the orders published on \<^verbatim>\<open>updatedOrderSource\<close>.\<close>

record Sent =
  returned :: "OrderModel option promise"
  console_error :: "error list"
  updatedOrderSource :: "OrderModel list"

text \<open>The executor of the outer promise starts \<^verbatim>\<open>setOwners\<close> and, in its \<^verbatim>\<open>then\<close>,
  sends the transaction with \<^verbatim>\<open>callbackToResolve(resolve, reject)\<close>. The outer promise
  is settled by that callback only. A rejection of \<^verbatim>\<open>setOwners\<close>, and the exception
  of calling a method the contract does not have, reject the promise that \<^verbatim>\<open>then\<close>
  returns, which nothing observes: the callback is never made and the outer promise never
  settles.\<close>

definition sendOrder :: "BlockchainService \<Rightarrow> OrderModel \<Rightarrow> string \<Rightarrow> Sent" where
  "sendOrder svc order methodName =
     (let callback =
            (case setOwners_svc order (from_account svc) of
               Fulfilled _ \<Rightarrow> send_method (contract order) methodName
             | Rejected e \<Rightarrow> None
             | Pending \<Rightarrow> None);
          outer = (case callback of None \<Rightarrow> Pending | Some outcome \<Rightarrow> callbackToResolve outcome)
      in case outer of
           Fulfilled resp \<Rightarrow>
             (case getOrderByAddress svc (order_id order) of
                Fulfilled updatedOrder \<Rightarrow>
                  \<lparr> returned = Fulfilled (Some updatedOrder), console_error = [],
                    updatedOrderSource = [updatedOrder] \<rparr>
              | Rejected err \<Rightarrow>
                  \<lparr> returned = Fulfilled None, console_error = [err], updatedOrderSource = [] \<rparr>
              | Pending \<Rightarrow>
                  \<lparr> returned = Pending, console_error = [], updatedOrderSource = [] \<rparr>)
         | Rejected err \<Rightarrow>
             \<lparr> returned = Fulfilled None, console_error = [err], updatedOrderSource = [] \<rparr>
         | Pending \<Rightarrow>
             \<lparr> returned = Pending, console_error = [], updatedOrderSource = [] \<rparr>)"

subsection \<open>A deployed ledger seen through the gateway\<close>

text \<open>The number of a state in \<^verbatim>\<open>enum State\<close>, which is what the getter \<^verbatim>\<open>state()\<close>
  returns.\<close>

fun state_index :: "State \<Rightarrow> uint8" where
  "state_index Ordered = 0"
| "state_index Approved = 1"
| "state_index Audited = 2"
| "state_index AtWarehouse = 3"
| "state_index WarehouseReleased = 4"
| "state_index InTransit = 5"
| "state_index Delivered = 6"
| "state_index Revoked = 7"

text \<open>The contract instance of an order whose committed storage is \<open>s\<close>: the public
  getters read the storage (the getter of the array \<^verbatim>\<open>history\<close> reverts outside its
  bounds); the outcomes of the two transactions are left as parameters.\<close>

definition deployed ::
  "OrderV1 \<Rightarrow> (address list \<Rightarrow> error + txhash) \<Rightarrow> (string \<Rightarrow> (error + txhash) option) \<Rightarrow> Contract" where
  "deployed s owners_outcome method_outcome =
     \<lparr> call_meta = Inr (product (meta s), amount (meta s), revoked (meta s)),
       call_state = Inr (state_index (state s)),
       call_getHistoryLength = Inr (getHistoryLength s),
       call_history = (\<lambda>i. if 0 \<le> i \<and> i < int (length (history s))
                            then Inr (who (history s ! nat i), action (history s ! nat i),
                                      rec_when (history s ! nat i))
                            else Inl OutOfRange),
       send_setOwners = owners_outcome,
       send_method = method_outcome \<rparr>"

text \<open>What the callback of \<^verbatim>\<open>getHistoryRecord\<close> makes of a record of the ledger.\<close>

definition hydrate_record :: "Record \<Rightarrow> OrderHistory" where
  "hydrate_record r = \<lparr> h_action = toUtf8 (action r), h_owner = who r,
                         transactionId = ''0x4534534534abec533'' \<rparr>"

text \<open>Modelled from the spec: the registry contract (\<^verbatim>\<open>OrdersV1\<close>, not among the sources).
  Section 4.3: \<^verbatim>\<open>getAmount()\<close> returns the current registry count, and \<^verbatim>\<open>orders(index)\<close>
  looks the ledger address up by index and fails with an out-of-range error for
  \<^verbatim>\<open>index >= count\<close>.\<close>

definition registry :: "address list \<Rightarrow> OrdersContract" where
  "registry addrs =
     \<lparr> call_getAmount = Inr (length addrs),
       call_orders = (\<lambda>i. if 0 \<le> i \<and> i < int (length addrs) then Inr (addrs ! nat i)
                            else Inl OutOfRange) \<rparr>"

subsection \<open>Notions the statements use\<close>

definition is_fulfilled :: "'a promise \<Rightarrow> bool" where
  "is_fulfilled p = (case p of Fulfilled v \<Rightarrow> True | Rejected e \<Rightarrow> False | Pending \<Rightarrow> False)"

definition is_rejected :: "'a promise \<Rightarrow> bool" where
  "is_rejected p = (case p of Fulfilled v \<Rightarrow> False | Rejected e \<Rightarrow> True | Pending \<Rightarrow> False)"

text \<open>The reads a hydration issues: \<^verbatim>\<open>meta\<close>, \<^verbatim>\<open>state\<close>, \<^verbatim>\<open>getHistoryLength\<close> and, when
  the length has been read, \<^verbatim>\<open>history(i)\<close> for each index below it.\<close>

definition history_reads_succeed :: "Contract \<Rightarrow> bool" where
  "history_reads_succeed c =
     (case call_getHistoryLength c of
        Inl e \<Rightarrow> False
      | Inr n \<Rightarrow> list_all (\<lambda>i. \<not> isl (call_history c i)) (sequentialArray 0 (int n)))"

definition all_reads_succeed :: "Contract \<Rightarrow> bool" where
  "all_reads_succeed c =
     (\<not> isl (call_meta c) \<and> \<not> isl (call_state c) \<and> history_reads_succeed c)"

text \<open>The table's label and successor of a call; \<^verbatim>\<open>setOwners\<close> and \<^verbatim>\<open>updateLocation\<close> are
  not in the table: they record nothing and leave the state.\<close>

fun label_of :: "call \<Rightarrow> string option" where
  "label_of (Transition t) = table_label t"
| "label_of (SetOwners a1 a2 a3 a4 a5) = None"
| "label_of (UpdateLocation lat lon) = None"

fun successor_of :: "call \<Rightarrow> State option" where
  "successor_of (Transition t) = table_successor t"
| "successor_of (SetOwners a1 a2 a3 a4 a5) = None"
| "successor_of (UpdateLocation lat lon) = None"

text \<open>A call that appends a history record.\<close>

definition recording :: "(call \<times> Msg) \<Rightarrow> bool" where
  "recording cm = (label_of (fst cm) \<noteq> None)"

text \<open>The history a client expects after a sequence of successful calls: one entry for each
  recording call, in call order, with the table's label and the caller.\<close>

definition expected_history :: "(call \<times> Msg) list \<Rightarrow> OrderHistory list" where
  "expected_history cs =
     List.map_filter
       (\<lambda>(c, m). map_option
          (\<lambda>l. \<lparr> h_action = l, h_owner = sender m, transactionId = ''0x4534534534abec533'' \<rparr>)
          (label_of c)) cs"

text \<open>The state a client expects: the table's successor of the last state-changing call,
  and the constructor's \<open>Ordered\<close> when there is none.\<close>

definition expected_state :: "(call \<times> Msg) list \<Rightarrow> State" where
  "expected_state cs =
     (case List.map_filter (\<lambda>(c, m). successor_of c) cs of
        [] \<Rightarrow> Ordered
      | q # qs \<Rightarrow> last (q # qs))"

text \<open>The same two notions on the ledger's side, from any starting state.\<close>

definition ledger_records :: "(call \<times> Msg) list \<Rightarrow> Record list" where
  "ledger_records cs =
     List.map_filter
       (\<lambda>(c, m). map_option
          (\<lambda>l. \<lparr> who = sender m, action = bytes32 l, rec_when = ucast (now m) \<rparr>)
          (label_of c)) cs"

definition state_after :: "State \<Rightarrow> (call \<times> Msg) list \<Rightarrow> State" where
  "state_after q0 cs =
     (case List.map_filter (\<lambda>(c, m). successor_of c) cs of
        [] \<Rightarrow> q0
      | q # qs \<Rightarrow> last (q # qs))"

subsection \<open>A concrete gateway\<close>

text \<open>A registry of five orders. The order at index 3 has been approved, the order at
  index 4 has been delivered, the others are new. Every transaction sent through a
  contract instance is accepted; the instance has the eight methods of the order form.\<close>

definition example_chain :: "address \<Rightarrow> OrderV1" where
  "example_chain a = (if a = 13 then example_approved
                      else if a = 14 then example_delivered else example_order)"

definition example_methods :: "string \<Rightarrow> (error + txhash) option" where
  "example_methods name =
     (if name \<in> set [''approve'', ''validated'', ''storeAuditDocument'', ''warehouseReceivedOrder'',
                       ''warehouseReleasedOrder'', ''receivedAndInTransit'', ''confirmDelivery'',
                       ''revoke'']
      then Some (Inr ''0x01'') else None)"

definition example_contract :: "address \<Rightarrow> Contract" where
  "example_contract a = deployed (example_chain a) (\<lambda>owners. Inr ''0x02'') example_methods"

definition example_status_names :: "nat \<Rightarrow> string option" where
  "example_status_names n =
     (if n < 8 then Some ([''Ordered'', ''Approved'', ''Audited'', ''AtWarehouse'',
                           ''WarehouseReleased'', ''InTransit'', ''Delivered'', ''Revoked''] ! n)
      else None)"

definition example_service :: BlockchainService where
  "example_service =
     \<lparr> servicePromise = Fulfilled (),
       ordersContract = registry [10, 11, 12, 13, 14],
       from_account = 1,
       contract_at = example_contract,
       OrderStatus = example_status_names \<rparr>"

definition example_hydrated :: "address \<Rightarrow> OrderModel" where
  "example_hydrated a =
     \<lparr> order_id = a, contract = example_contract a,
       order_history = map hydrate_record (history (example_chain a)),
       order_amount = 10, order_product = ''Apples'',
       status = unat (state_index (state (example_chain a))),
       statusLabel = example_status_names (unat (state_index (state (example_chain a)))) \<rparr>"

text \<open>An order object whose contract instance cannot be reached: every call on it fails.\<close>

definition unreachable_contract :: Contract where
  "unreachable_contract =
     \<lparr> call_meta = Inl (Transport ''connection refused''),
       call_state = Inl (Transport ''connection refused''),
       call_getHistoryLength = Inl (Transport ''connection refused''),
       call_history = (\<lambda>i. Inl (Transport ''connection refused'')),
       send_setOwners = (\<lambda>owners. Inl (Transport ''connection refused'')),
       send_method = (\<lambda>name. Some (Inl (Transport ''connection refused''))) \<rparr>"

section \<open>Properties of the ledger\<close>

lemmas guard_defs = onlyFarmer_def onlyAuditor_def onlyWarehouse_def onlyDistributor_def
  onlySupermarket_def onlyFarmerOrAuditor_def onlyContractOwners_def inState_def

lemmas form_defs = approve_def validated_def storeAuditDocument_def warehouseReceivedOrder_def
  warehouseReleasedOrder_def receivedAndInTransit_def confirmDelivery_def revoke_def

lemmas example_defs = example_acl_def example_order_def msg_from_def constructor_def

text \<open>Claim C1. For each of the seven state-recording transitions (those with a history
  label in the table), when the caller holds the required role and the order is in the
  precondition state, the call succeeds; the storage it leaves is the storage before the
  call with exactly one record appended to the history, whose actor is the caller and
  whose action is the table's label, and with the state set to the table's successor
  (left as it was for \<^verbatim>\<open>storeAuditDocument\<close>). Nothing else changes.\<close>

theorem transition_appends_record_and_advances:
  assumes "table_label t = Some l"
    and "holds_required_role t m s"
    and "in_precondition_state t s"
  shows "invoke t m s =
           Inr (s\<lparr> history := history s @
                               [\<lparr> who = sender m, action = bytes32 l, rec_when = ucast (now m) \<rparr>],
                   state := (case table_successor t of None \<Rightarrow> state s | Some q \<Rightarrow> q) \<rparr>)"
  using assms
  by (cases t)
     (auto simp: holds_required_role_def in_precondition_state_def guard_defs form_defs
        addRecord_def)

theorem transition_appends_record_and_advances_witness:
  "table_label Approve = Some ''Approved''
   \<and> holds_required_role Approve (msg_from 1 77) example_order
   \<and> in_precondition_state Approve example_order
   \<and> invoke Approve (msg_from 1 77) example_order =
       Inr (example_order\<lparr> history := [\<lparr> who = 1, action = bytes32 ''Approved'', rec_when = 77 \<rparr>],
                            state := Approved \<rparr>)"
proof -
  have l: "table_label Approve = Some ''Approved''" by simp
  have r: "holds_required_role Approve (msg_from 1 77) example_order"
    by (simp add: holds_required_role_def example_defs)
  have p: "in_precondition_state Approve example_order"
    by (simp add: in_precondition_state_def example_defs)
  show ?thesis
    using transition_appends_record_and_advances [OF l r p] l r p
    by (simp add: example_defs)
qed

text \<open>Claim C2. When the caller does not hold the required role, or the order is not in
  the transition's precondition state, the call reverts (with the authorisation error
  when the role check fails, which runs first, and with the state error otherwise), and
  the storage after the transaction is the storage before it: state, metadata and
  history are untouched.\<close>

theorem failed_check_rejects_without_mutation:
  assumes "\<not> holds_required_role t m s \<or> \<not> in_precondition_state t s"
  shows "invoke t m s = Inl (if \<not> holds_required_role t m s then Unauthorized else InvalidState)
         \<and> transact (Transition t) m s = s"
  using assms
  by (cases t)
     (auto simp: transact_def holds_required_role_def in_precondition_state_def guard_defs
        form_defs)

theorem failed_check_rejects_without_mutation_witness:
  "in_precondition_state Validated example_order = False
   \<and> invoke Validated (msg_from 2 77) example_order = Inl InvalidState
   \<and> transact (Transition Validated) (msg_from 2 77) example_order = example_order
   \<and> holds_required_role Approve (msg_from 2 77) example_order = False
   \<and> invoke Approve (msg_from 2 77) example_order = Inl Unauthorized
   \<and> transact (Transition Approve) (msg_from 2 77) example_order = example_order"
proof -
  have p: "\<not> in_precondition_state Validated example_order"
    by (simp add: in_precondition_state_def example_defs)
  have r: "holds_required_role Validated (msg_from 2 77) example_order"
    by (simp add: holds_required_role_def example_defs)
  have r': "\<not> holds_required_role Approve (msg_from 2 77) example_order"
    by (simp add: holds_required_role_def example_defs)
  show ?thesis
    using failed_check_rejects_without_mutation [of Validated "msg_from 2 77" example_order]
      failed_check_rejects_without_mutation [of Approve "msg_from 2 77" example_order] p r r'
    by simp
qed

lemma example_delivered_eval:
  "example_delivered = example_order\<lparr> history :=
       [\<lparr> who = 1, action = bytes32 ''Approved'', rec_when = 100 \<rparr>,
        \<lparr> who = 2, action = bytes32 ''Audited'', rec_when = 101 \<rparr>,
        \<lparr> who = 3, action = bytes32 ''Received'', rec_when = 102 \<rparr>,
        \<lparr> who = 3, action = bytes32 ''Released'', rec_when = 103 \<rparr>,
        \<lparr> who = 4, action = bytes32 ''In Transit'', rec_when = 104 \<rparr>,
        \<lparr> who = 5, action = bytes32 ''Confirmed Delivery'', rec_when = 105 \<rparr>],
      state := Delivered \<rparr>"
  by (simp add: example_delivered_def example_lifecycle_def transact_def form_defs guard_defs
      addRecord_def example_defs)

text \<open>Claim C3, as stated, fails: \<^verbatim>\<open>revoke\<close> has no state guard, so the farmer revokes an
  order that has been delivered. The order below went through the whole lifecycle; the
  call succeeds on it and leaves the state \<open>Revoked\<close>.\<close>

theorem revoke_from_delivered_counterexample:
  "state example_delivered = Delivered
   \<and> onlyFarmerOrAuditor (msg_from 1 200) example_delivered
   \<and> revoke (msg_from 1 200) example_delivered =
       Inr (example_delivered\<lparr> state := Revoked,
                                meta := (meta example_delivered)\<lparr> revoked := True \<rparr> \<rparr>)
   \<and> state (transact (Transition Revoke) (msg_from 1 200) example_delivered) = Revoked"
  by (simp add: example_delivered_eval transact_def revoke_def onlyFarmerOrAuditor_def
      example_defs)

text \<open>Claim C3, amended. Called by the farmer or the auditor, \<^verbatim>\<open>revoke\<close> succeeds from
  every state, \<open>Delivered\<close> included: it sets the state to \<open>Revoked\<close> and the metadata flag
  \<open>revoked\<close> to true, changes nothing else, and so records no history entry.\<close>

theorem revoke_succeeds_from_every_state:
  assumes "onlyFarmerOrAuditor m s"
  shows "revoke m s = Inr (s\<lparr> state := Revoked, meta := (meta s)\<lparr> revoked := True \<rparr> \<rparr>)
         \<and> history (s\<lparr> state := Revoked, meta := (meta s)\<lparr> revoked := True \<rparr> \<rparr>) = history s"
  using assms by (simp add: revoke_def)

theorem revoke_succeeds_from_every_state_witness:
  "onlyFarmerOrAuditor (msg_from 2 300) example_order
   \<and> revoke (msg_from 2 300) example_order =
       Inr (example_order\<lparr> state := Revoked, meta := (meta example_order)\<lparr> revoked := True \<rparr> \<rparr>)"
proof -
  have g: "onlyFarmerOrAuditor (msg_from 2 300) example_order"
    by (simp add: onlyFarmerOrAuditor_def example_defs)
  show ?thesis using revoke_succeeds_from_every_state [OF g] g by simp
qed

subsection \<open>The revoked flag\<close>

lemma dispatch_keeps_revoked_matches_state:
  assumes "dispatch c m s = Inr s'" and "revoked_matches_state s"
  shows "revoked_matches_state s'"
proof (cases c)
  case (Transition t)
  with assms show ?thesis
    by (cases t)
       (auto simp: revoked_matches_state_def form_defs guard_defs addRecord_def split: if_splits)
next
  case (SetOwners a1 a2 a3 a4 a5)
  with assms show ?thesis by (auto simp: revoked_matches_state_def setOwners_def)
next
  case (UpdateLocation lat lon)
  with assms show ?thesis
    by (auto simp: revoked_matches_state_def updateLocation_def split: if_splits)
qed

lemma transact_keeps_revoked_matches_state:
  "revoked_matches_state s \<Longrightarrow> revoked_matches_state (transact c m s)"
  by (auto simp: transact_def split: sum.splits intro: dispatch_keeps_revoked_matches_state)

lemma replay_keeps_revoked_matches_state:
  "revoked_matches_state s \<Longrightarrow> revoked_matches_state (replay cs s)"
  by (induction cs s rule: replay.induct) (auto intro: transact_keeps_revoked_matches_state)

text \<open>Claim C4. In every storage that a sequence of transactions (of any of the mutating
  calls, by any senders, reverted ones included) reaches from the constructor, the
  metadata flag \<open>revoked\<close> is true exactly when the state is \<open>Revoked\<close>.\<close>

theorem revoked_flag_iff_state_revoked:
  "revoked (meta (replay cs (constructor prd amt creator acl)))
     = (state (replay cs (constructor prd amt creator acl)) = Revoked)"
proof -
  have "revoked_matches_state (constructor prd amt creator acl)"
    by (simp add: revoked_matches_state_def constructor_def)
  then have "revoked_matches_state (replay cs (constructor prd amt creator acl))"
    by (rule replay_keeps_revoked_matches_state)
  then show ?thesis by (simp add: revoked_matches_state_def)
qed

theorem revoked_flag_iff_state_revoked_witness:
  "revoked (meta (replay [(Transition Approve, msg_from 1 100), (Transition Revoke, msg_from 2 101)]
                    (constructor (bytes32 ''Apples'') 10 9 example_acl)))
   \<and> state (replay [(Transition Approve, msg_from 1 100), (Transition Revoke, msg_from 2 101)]
                    (constructor (bytes32 ''Apples'') 10 9 example_acl)) = Revoked"
  using revoked_flag_iff_state_revoked
    [of "[(Transition Approve, msg_from 1 100), (Transition Revoke, msg_from 2 101)]"
        "bytes32 ''Apples''" 10 9 example_acl]
  by (simp add: transact_def form_defs guard_defs addRecord_def example_defs)

subsection \<open>The history log\<close>

lemma dispatch_extends_history:
  assumes "dispatch c m s = Inr s'"
  shows "prefix (history s) (history s')"
proof (cases c)
  case (Transition t)
  with assms show ?thesis
    by (cases t) (auto simp: form_defs addRecord_def split: if_splits)
next
  case (SetOwners a1 a2 a3 a4 a5)
  with assms show ?thesis by (auto simp: setOwners_def)
next
  case (UpdateLocation lat lon)
  with assms show ?thesis by (auto simp: updateLocation_def split: if_splits)
qed

lemma transact_extends_history: "prefix (history s) (history (transact c m s))"
  by (auto simp: transact_def split: sum.splits intro: dispatch_extends_history)

text \<open>Claim C5. For every mutating call of the contract (the eight calls of the order form,
  \<^verbatim>\<open>revoke\<close> among them, \<^verbatim>\<open>setOwners\<close> and \<^verbatim>\<open>updateLocation\<close>), reverted or not, the
  history after the transaction extends the history before it: it is no shorter, and every
  entry that was there is still there at its index.\<close>

theorem history_is_append_only:
  "length (history s) \<le> length (history (transact c m s))
   \<and> (\<forall>i < length (history s). history (transact c m s) ! i = history s ! i)
   \<and> prefix (history s) (history (transact c m s))"
proof -
  have p: "prefix (history s) (history (transact c m s))" by (rule transact_extends_history)
  then obtain zs where "history (transact c m s) = history s @ zs" by (auto simp: prefix_def)
  then show ?thesis using p by (simp add: nth_append)
qed

theorem history_is_append_only_witness:
  "length (history example_approved) = 1
   \<and> length (history (transact (Transition Validated) (msg_from 2 101) example_approved)) = 2
   \<and> history (transact (Transition Validated) (msg_from 2 101) example_approved) ! 0
       = history example_approved ! 0
   \<and> history (transact (UpdateLocation (bytes32 ''48.1'') (bytes32 ''11.5'')) (msg_from 0 102)
                example_approved) = history example_approved"
proof -
  have l: "length (history example_approved) = 1"
    by (simp add: example_approved_def transact_def form_defs guard_defs addRecord_def
        example_defs)
  have v: "length (history (transact (Transition Validated) (msg_from 2 101) example_approved)) = 2"
    by (simp add: example_approved_def transact_def form_defs guard_defs addRecord_def
        example_defs)
  have u: "history (transact (UpdateLocation (bytes32 ''48.1'') (bytes32 ''11.5'')) (msg_from 0 102)
                example_approved) = history example_approved"
    by (simp add: example_approved_def transact_def form_defs guard_defs addRecord_def
        updateLocation_def example_defs)
  show ?thesis
    using history_is_append_only [of example_approved "Transition Validated" "msg_from 2 101"] l v u
    by simp
qed

text \<open>Claim C10. \<^verbatim>\<open>revoke\<close> is idempotent: on the storage a successful \<^verbatim>\<open>revoke\<close> leaves,
  a second \<^verbatim>\<open>revoke\<close> by any caller that passes the farmer-or-auditor guard succeeds and
  leaves that same storage (state, metadata, history, location history and every other
  field).\<close>

theorem revoke_is_idempotent:
  assumes "revoke m1 s = Inr s1" and "onlyFarmerOrAuditor m2 s1"
  shows "revoke m2 s1 = Inr s1"
  using assms by (auto simp: revoke_def onlyFarmerOrAuditor_def split: if_splits)

theorem revoke_is_idempotent_witness:
  "revoke (msg_from 1 200) example_approved = Inr example_revoked
   \<and> onlyFarmerOrAuditor (msg_from 2 201) example_revoked
   \<and> revoke (msg_from 2 201) example_revoked = Inr example_revoked"
proof -
  have a: "revoke (msg_from 1 200) example_approved = Inr example_revoked"
    by (simp add: example_revoked_def example_approved_def transact_def form_defs guard_defs
        addRecord_def example_defs)
  have g: "onlyFarmerOrAuditor (msg_from 2 201) example_revoked"
    by (simp add: example_revoked_def example_approved_def transact_def form_defs guard_defs
        addRecord_def example_defs)
  show ?thesis using revoke_is_idempotent [OF a g] a g by simp
qed

section \<open>Properties of the gateway\<close>

subsection \<open>Promises\<close>

lemma is_fulfilled_simps [simp]:
  "is_fulfilled (Fulfilled v)" "\<not> is_fulfilled (Rejected e)" "\<not> is_fulfilled Pending"
  by (simp_all add: is_fulfilled_def)

lemma is_rejected_simps [simp]:
  "\<not> is_rejected (Fulfilled v)" "is_rejected (Rejected e)" "\<not> is_rejected Pending"
  by (simp_all add: is_rejected_def)

lemma both_is_fulfilled: "is_fulfilled (both p q) = (is_fulfilled p \<and> is_fulfilled q)"
  by (cases p; cases q) simp_all

lemma both_is_rejected: "is_rejected (both p q) = (is_rejected p \<or> is_rejected q)"
  by (cases p; cases q) simp_all

lemma then_p_is_fulfilled:
  "(\<And>v. is_fulfilled (f v)) \<Longrightarrow> is_fulfilled (then_p p f) = is_fulfilled p"
  by (cases p) (simp_all add: then_p_def)

lemma then_p_is_rejected:
  assumes "\<And>v. is_fulfilled (f v)"
  shows "is_rejected (then_p p f) = is_rejected p"
proof (cases p)
  case (Fulfilled v)
  from assms [of v] show ?thesis
    by (cases "f v") (simp_all add: then_p_def Fulfilled)
qed (simp_all add: then_p_def)

lemma callbackToResolve_is_fulfilled: "is_fulfilled (callbackToResolve r) = (\<not> isl r)"
  by (cases r) (simp_all add: callbackToResolve_def)

lemma callbackToResolve_is_rejected: "is_rejected (callbackToResolve r) = isl r"
  by (cases r) (simp_all add: callbackToResolve_def)

lemma promise_all_is_fulfilled: "is_fulfilled (promise_all ps) = list_all is_fulfilled ps"
  by (induction ps) (simp_all add: then_p_is_fulfilled both_is_fulfilled split_beta)

lemma promise_all_is_rejected: "is_rejected (promise_all ps) = list_ex is_rejected ps"
  by (induction ps) (simp_all add: then_p_is_rejected both_is_rejected split_beta)

lemma getHistoryRecord_is_fulfilled:
  "is_fulfilled (getHistoryRecord c i) = (\<not> isl (call_history c i))"
  by (simp add: getHistoryRecord_def then_p_is_fulfilled split_beta callbackToResolve_is_fulfilled)

lemma getHistoryRecord_is_rejected:
  "is_rejected (getHistoryRecord c i) = isl (call_history c i)"
  by (simp add: getHistoryRecord_def then_p_is_rejected split_beta callbackToResolve_is_rejected)

lemma getHistory_is_fulfilled: "is_fulfilled (getHistory c) = history_reads_succeed c"
  by (cases "call_getHistoryLength c")
     (simp_all add: getHistory_def getHistoryLength_svc_def callbackToResolve_def then_p_def
        history_reads_succeed_def promise_all_is_fulfilled list_all_iff
        getHistoryRecord_is_fulfilled sequentialArray_def)

lemma getHistory_is_rejected: "is_rejected (getHistory c) = (\<not> history_reads_succeed c)"
  by (cases "call_getHistoryLength c")
     (simp_all add: getHistory_def getHistoryLength_svc_def callbackToResolve_def then_p_def
        history_reads_succeed_def promise_all_is_rejected list_all_iff list_ex_iff
        getHistoryRecord_is_rejected sequentialArray_def)

lemma promise_all_map_Fulfilled: "promise_all (map Fulfilled vs) = Fulfilled vs"
  by (induction vs) (simp_all add: then_p_def)

subsection \<open>Completion order of \<^verbatim>\<open>Promise.all\<close>\<close>

lemma those_eq_Some: "those xs = Some ys \<longleftrightarrow> xs = map Some ys"
proof (induction xs arbitrary: ys)
  case Nil
  show ?case by auto
next
  case (Cons x xs)
  show ?case
    by (cases x; cases ys) (auto simp: Cons.IH split: option.splits)
qed

lemma those_eq_None: "those xs = None \<longleftrightarrow> None \<in> set xs"
  by (induction xs) (auto split: option.splits)

text \<open>The slots hold values of \<open>vs\<close> only, and every empty slot is still to be completed.\<close>

lemma all_settle_fulfilled:
  assumes "length slots = length vs"
    and "\<And>k. k < length vs \<Longrightarrow> slots ! k = None \<or> slots ! k = Some (vs ! k)"
    and "\<And>k. k < length vs \<Longrightarrow> slots ! k = None \<Longrightarrow> k \<in> set completion"
    and "None \<in> set slots"
  shows "all_settle (map Fulfilled vs) completion slots = Fulfilled vs"
  using assms
proof (induction completion arbitrary: slots)
  case Nil
  from Nil.prems(4) obtain k where "k < length slots" "slots ! k = None"
    by (metis in_set_conv_nth)
  with Nil.prems(1,3) show ?case by auto
next
  case (Cons j completion)
  show ?case
  proof (cases "length vs \<le> j")
    case True
    have "all_settle (map Fulfilled vs) completion slots = Fulfilled vs"
    proof (rule Cons.IH [OF Cons.prems(1,2) _ Cons.prems(4)])
      fix k assume "k < length vs" "slots ! k = None"
      with Cons.prems(3) [of k] True show "k \<in> set completion" by auto
    qed
    with True show ?thesis by simp
  next
    case False
    then have j: "j < length vs" by simp
    let ?slots = "slots[j := Some (vs ! j)]"
    have agree: "?slots ! k = None \<or> ?slots ! k = Some (vs ! k)" if "k < length vs" for k
      using that Cons.prems(1) Cons.prems(2) [of k] by (cases "k = j") auto
    show ?thesis
    proof (cases "those ?slots")
      case None
      then have still: "None \<in> set ?slots" by (simp add: those_eq_None)
      have "all_settle (map Fulfilled vs) completion ?slots = Fulfilled vs"
      proof (rule Cons.IH [OF _ agree _ still])
        show "length ?slots = length vs" using Cons.prems(1) by simp
      next
        fix k assume k: "k < length vs" and e: "?slots ! k = None"
        then have "k \<noteq> j" using Cons.prems(1) by auto
        with k e Cons.prems(3) [of k] show "k \<in> set completion" by auto
      qed
      with j None show ?thesis by simp
    next
      case (Some ws)
      then have ws: "?slots = map Some ws" by (simp add: those_eq_Some)
      then have len: "length ws = length vs" using Cons.prems(1)
        by (metis length_list_update length_map)
      have "ws ! k = vs ! k" if "k < length vs" for k
      proof -
        from ws that len have "?slots ! k = Some (ws ! k)" by simp
        with agree [OF that] show ?thesis by simp
      qed
      with len have "ws = vs" by (auto intro: nth_equalityI)
      with j Some show ?thesis by simp
    qed
  qed
qed

lemma promise_all_in_fulfilled:
  assumes "{..<length vs} \<subseteq> set completion"
  shows "promise_all_in completion (map Fulfilled vs) = Fulfilled vs"
proof (cases "vs = []")
  case True
  then show ?thesis by (simp add: promise_all_in_def)
next
  case False
  have "all_settle (map Fulfilled vs) completion (replicate (length vs) None) = Fulfilled vs"
  proof (rule all_settle_fulfilled)
    show "None \<in> set (replicate (length vs) (None :: 'a option))" using False by simp
  qed (use assms in auto)
  with False show ?thesis by (simp add: promise_all_in_def)
qed

lemma sequentialArray_upto: "sequentialArray start (hi - start) = [start..hi - 1]"
proof -
  have "map (\<lambda>k. start + int k) [0..<n] = [start..start + int n - 1]" for n
  proof (induction n)
    case 0
    show ?case by simp
  next
    case (Suc n)
    have "[start..start + int (Suc n) - 1] = [start..start + int n - 1] @ [start + int n]"
      using upto_rec2 [of start "start + int n"] by simp
    with Suc show ?case by simp
  qed
  from this [of "nat (hi - start)"] show ?thesis
    by (cases "start \<le> hi") (simp_all add: sequentialArray_def)
qed

subsection \<open>Hydration of a deployed ledger\<close>

lemma table_label_toUtf8: "table_label t = Some l \<Longrightarrow> toUtf8 (bytes32 l) = l"
  by (cases t) (auto simp: toUtf8_def bytes32_def)

lemma dispatch_effect:
  assumes "dispatch c m s = Inr s'"
  shows "history s' = history s @ ledger_records [(c, m)]
         \<and> state s' = state_after (state s) [(c, m)]
         \<and> product (meta s') = product (meta s) \<and> amount (meta s') = amount (meta s)"
proof (cases c)
  case (Transition t)
  with assms show ?thesis
    by (cases t)
       (auto simp: form_defs addRecord_def ledger_records_def state_after_def map_filter_simps
          split: if_splits)
next
  case (SetOwners a1 a2 a3 a4 a5)
  with assms show ?thesis
    by (auto simp: setOwners_def ledger_records_def state_after_def map_filter_simps)
next
  case (UpdateLocation lat lon)
  with assms show ?thesis
    by (auto simp: updateLocation_def ledger_records_def state_after_def map_filter_simps
        split: if_splits)
qed

lemma ledger_records_Cons: "ledger_records (cm # cs) = ledger_records [cm] @ ledger_records cs"
  by (cases cm) (auto simp: ledger_records_def map_filter_simps split: option.splits)

lemma state_after_Cons: "state_after q0 (cm # cs) = state_after (state_after q0 [cm]) cs"
  by (cases cm) (auto simp: state_after_def map_filter_simps split: option.splits list.splits)

lemma run_calls_effect:
  "run_calls cs s = Inr s' \<Longrightarrow>
     history s' = history s @ ledger_records cs
     \<and> state s' = state_after (state s) cs
     \<and> product (meta s') = product (meta s) \<and> amount (meta s') = amount (meta s)"
proof (induction cs s rule: run_calls.induct)
  case (1 s)
  then show ?case by (simp add: ledger_records_def state_after_def map_filter_simps)
next
  case (2 c m cs s)
  from "2.prems" obtain s1 where d: "dispatch c m s = Inr s1" and r: "run_calls cs s1 = Inr s'"
    by (auto split: sum.splits)
  from "2.IH" [OF d r] dispatch_effect [OF d] show ?case
    by (simp add: ledger_records_Cons [of "(c, m)" cs] state_after_Cons [of _ "(c, m)" cs])
qed

lemma hydrate_ledger_records: "map hydrate_record (ledger_records cs) = expected_history cs"
proof (induction cs)
  case Nil
  show ?case by (simp add: ledger_records_def expected_history_def map_filter_simps)
next
  case (Cons cm cs)
  obtain c m where cm: "cm = (c, m)" by (cases cm)
  show ?case
  proof (cases c)
    case (Transition t)
    with Cons cm show ?thesis
      by (cases "table_label t")
         (auto simp: ledger_records_def expected_history_def map_filter_simps hydrate_record_def
            table_label_toUtf8)
  qed (use Cons cm in \<open>auto simp: ledger_records_def expected_history_def map_filter_simps\<close>)
qed

lemma getHistory_deployed:
  "getHistory (deployed s oo mo) = Fulfilled (map hydrate_record (history s))"
proof -
  let ?c = "deployed s oo mo"
  let ?n = "length (history s)"
  have rec: "getHistoryRecord ?c (int k) = Fulfilled (hydrate_record (history s ! k))"
    if "k < ?n" for k
    using that
    by (simp add: getHistoryRecord_def deployed_def callbackToResolve_def then_p_def
        hydrate_record_def)
  have "map (getHistoryRecord ?c) (sequentialArray 0 (int ?n))
          = map (\<lambda>k. Fulfilled (hydrate_record (history s ! k))) [0..<?n]"
    by (simp add: sequentialArray_def rec)
  also have "\<dots> = map Fulfilled (map hydrate_record (history s))"
    by (rule nth_equalityI) simp_all
  finally have m: "promise_all (map (getHistoryRecord ?c) (sequentialArray 0 (int ?n)))
                     = Fulfilled (map hydrate_record (history s))"
    using promise_all_map_Fulfilled [of "map hydrate_record (history s)"] by simp
  have len: "getHistoryLength_svc ?c = Fulfilled ?n"
    by (simp add: getHistoryLength_svc_def deployed_def callbackToResolve_def getHistoryLength_def)
  show ?thesis
    using m by (cases "history s = []") (simp_all add: getHistory_def len then_p_def)
qed

lemma buildOrder_deployed:
  "buildOrder labels (deployed s oo mo) addr =
     Fulfilled \<lparr> order_id = addr, contract = deployed s oo mo,
                 order_history = map hydrate_record (history s),
                 order_amount = amount (meta s), order_product = toUtf8 (product (meta s)),
                 status = unat (state_index (state s)),
                 statusLabel = labels (unat (state_index (state s))) \<rparr>"
proof -
  have "call_meta (deployed s oo mo) = Inr (product (meta s), amount (meta s), revoked (meta s))"
    and "call_state (deployed s oo mo) = Inr (state_index (state s))"
    by (simp_all add: deployed_def)
  then show ?thesis
    by (simp add: buildOrder_def getHistory_deployed callbackToResolve_def then_p_def)
qed

lemma example_approved_eval:
  "example_approved =
     example_order\<lparr> history := [\<lparr> who = 1, action = bytes32 ''Approved'', rec_when = 100 \<rparr>],
                    state := Approved \<rparr>"
  by (simp add: example_approved_def transact_def form_defs guard_defs addRecord_def example_defs)

lemma example_chain_meta:
  "amount (meta (example_chain a)) = 10" "toUtf8 (product (meta (example_chain a))) = ''Apples''"
  by (simp_all add: example_chain_def example_approved_eval example_delivered_eval example_defs
      toUtf8_def bytes32_def)

lemma getOrderByAddress_example:
  "getOrderByAddress example_service a = Fulfilled (example_hydrated a)"
  by (simp add: getOrderByAddress_def example_service_def example_contract_def
      buildOrder_deployed then_p_def example_hydrated_def example_chain_meta)

lemma getOrder_example:
  "getOrder example_service 3 = Fulfilled (example_hydrated 13)"
  "getOrder example_service 4 = Fulfilled (example_hydrated 14)"
  using getOrderByAddress_example
  by (simp_all add: getOrder_def order_svc_def callWithPromise_def then_p_def
      callbackToResolve_def example_service_def registry_def)

lemma example_lifecycle_run:
  "run_calls example_lifecycle (constructor (bytes32 ''Apples'') 10 9 example_acl) = Inr example_delivered"
  by (simp add: example_delivered_eval example_lifecycle_def form_defs guard_defs
      addRecord_def example_defs)

subsection \<open>The page listing\<close>

text \<open>Claim C6. The listing first reads the registry count. When the count is 0 it returns
  an empty sequence of orders with total 0. Otherwise, when the hydration of every index
  of the window \<open>startIndex .. min(total, startIndex + pageSize) - 1\<close> is fulfilled, it
  returns the hydrated orders of exactly these indices in ascending index order, in
  whatever order the hydrations complete, together with the registry count as total.
  (The account lookup of the service has succeeded and the count has been read.)\<close>

theorem orders_page:
  assumes "servicePromise svc = Fulfilled ()"
    and "call_getAmount (ordersContract svc) = Inr tot"
  shows "(tot = 0 \<longrightarrow>
            orders_svc svc completion startIndex pageSize
              = Fulfilled \<lparr> resp_orders = [], resp_total = 0 \<rparr>)
         \<and> (0 < tot
              \<and> (\<forall>i \<in> set [startIndex..min (int tot) (startIndex + pageSize) - 1].
                     getOrder svc i = Fulfilled (hydrated i))
              \<and> {..<length [startIndex..min (int tot) (startIndex + pageSize) - 1]} \<subseteq> set completion
            \<longrightarrow>
            orders_svc svc completion startIndex pageSize
              = Fulfilled \<lparr> resp_orders =
                              map hydrated [startIndex..min (int tot) (startIndex + pageSize) - 1],
                            resp_total = tot \<rparr>)"
proof -
  have count: "orderCount svc = Fulfilled tot"
    using assms by (simp add: orderCount_def callWithPromise_def then_p_def callbackToResolve_def)
  let ?window = "[startIndex..min (int tot) (startIndex + pageSize) - 1]"
  have empty: "orders_svc svc completion startIndex pageSize
                 = Fulfilled \<lparr> resp_orders = [], resp_total = 0 \<rparr>" if "tot = 0"
    using that by (simp add: orders_svc_def count then_p_def)
  have page: "orders_svc svc completion startIndex pageSize
                = Fulfilled \<lparr> resp_orders = map hydrated ?window, resp_total = tot \<rparr>"
    if pos: "0 < tot"
      and hyd: "\<forall>i \<in> set ?window. getOrder svc i = Fulfilled (hydrated i)"
      and compl: "{..<length ?window} \<subseteq> set completion"
  proof -
    have eq: "map (getOrder svc) ?window = map Fulfilled (map hydrated ?window)"
      using hyd by simp
    have "promise_all_in completion (map (getOrder svc) ?window)
            = Fulfilled (map hydrated ?window)"
      unfolding eq using compl by (intro promise_all_in_fulfilled) simp
    then show ?thesis
      using pos by (simp add: orders_svc_def count then_p_def Let_def sequentialArray_upto)
  qed
  from empty page show ?thesis by blast
qed

theorem orders_page_witness:
  "orders_svc example_service [1, 0] 3 20
     = Fulfilled \<lparr> resp_orders = [example_hydrated 13, example_hydrated 14], resp_total = 5 \<rparr>
   \<and> orders_svc (example_service\<lparr> ordersContract := registry [] \<rparr>) [] 0 20
     = Fulfilled \<lparr> resp_orders = [], resp_total = 0 \<rparr>"
proof -
  have sp: "servicePromise example_service = Fulfilled ()"
    by (simp add: example_service_def)
  have n: "call_getAmount (ordersContract example_service) = Inr 5"
    by (simp add: example_service_def registry_def)
  have w: "[3..min (int 5) (3 + 20) - 1] = [3, 4]"
    by (simp add: upto_rec1)
  have sp0: "servicePromise (example_service\<lparr> ordersContract := registry [] \<rparr>) = Fulfilled ()"
    by (simp add: example_service_def)
  have n0: "call_getAmount (ordersContract (example_service\<lparr> ordersContract := registry [] \<rparr>)) = Inr 0"
    by (simp add: registry_def)
  show ?thesis
    using orders_page [OF sp n, of "[1, 0]" 3 20 "\<lambda>i. example_hydrated (word_of_int (10 + i))"]
      orders_page [OF sp0 n0, of "[]" 0 20 "\<lambda>i. example_hydrated (word_of_int (10 + i))"]
      getOrder_example
    by (simp add: w lessThan_Suc numeral_2_eq_2)
qed

subsection \<open>Hydration\<close>

text \<open>Claim C7. After a sequence of successful calls since creation, hydrating the order
  yields a history with one entry for each call that records (so of length N when N
  transitions appended a record), in call order, each with the table's label and the
  caller; the status is the number of the successor state of the last state-changing
  call (of \<open>Ordered\<close> when there is none); product and amount are those of the creation.\<close>

theorem hydration_after_transitions:
  assumes "run_calls cs (constructor prd amt creator acl) = Inr s"
  shows "buildOrder labels (deployed s oo mo) addr =
           Fulfilled \<lparr> order_id = addr, contract = deployed s oo mo,
                       order_history = expected_history cs,
                       order_amount = amt, order_product = toUtf8 prd,
                       status = unat (state_index (expected_state cs)),
                       statusLabel = labels (unat (state_index (expected_state cs))) \<rparr>
         \<and> length (expected_history cs) = length (filter recording cs)"
proof -
  from run_calls_effect [OF assms]
  have h: "history s = ledger_records cs" and q: "state s = expected_state cs"
    and p: "product (meta s) = prd" and a: "amount (meta s) = amt"
    by (simp_all add: constructor_def state_after_def expected_state_def)
  have n: "length (expected_history cs) = length (filter recording cs)"
    by (induction cs)
       (auto simp: expected_history_def recording_def map_filter_simps split: option.splits)
  show ?thesis
    by (simp add: buildOrder_deployed h q p a hydrate_ledger_records n)
qed

theorem hydration_after_transitions_witness:
  "run_calls example_lifecycle (constructor (bytes32 ''Apples'') 10 9 example_acl) = Inr example_delivered
   \<and> buildOrder example_status_names (example_contract 14) 14 =
       Fulfilled \<lparr> order_id = 14, contract = example_contract 14,
          order_history =
            [\<lparr> h_action = ''Approved'', h_owner = 1, transactionId = ''0x4534534534abec533'' \<rparr>,
             \<lparr> h_action = ''Audited'', h_owner = 2, transactionId = ''0x4534534534abec533'' \<rparr>,
             \<lparr> h_action = ''Received'', h_owner = 3, transactionId = ''0x4534534534abec533'' \<rparr>,
             \<lparr> h_action = ''Released'', h_owner = 3, transactionId = ''0x4534534534abec533'' \<rparr>,
             \<lparr> h_action = ''In Transit'', h_owner = 4, transactionId = ''0x4534534534abec533'' \<rparr>,
             \<lparr> h_action = ''Confirmed Delivery'', h_owner = 5,
               transactionId = ''0x4534534534abec533'' \<rparr>],
          order_amount = 10, order_product = ''Apples'', status = 6,
          statusLabel = Some ''Delivered'' \<rparr>
   \<and> length (filter recording example_lifecycle) = 6"
proof -
  have h: "expected_history example_lifecycle =
            [\<lparr> h_action = ''Approved'', h_owner = 1, transactionId = ''0x4534534534abec533'' \<rparr>,
             \<lparr> h_action = ''Audited'', h_owner = 2, transactionId = ''0x4534534534abec533'' \<rparr>,
             \<lparr> h_action = ''Received'', h_owner = 3, transactionId = ''0x4534534534abec533'' \<rparr>,
             \<lparr> h_action = ''Released'', h_owner = 3, transactionId = ''0x4534534534abec533'' \<rparr>,
             \<lparr> h_action = ''In Transit'', h_owner = 4, transactionId = ''0x4534534534abec533'' \<rparr>,
             \<lparr> h_action = ''Confirmed Delivery'', h_owner = 5,
               transactionId = ''0x4534534534abec533'' \<rparr>]"
    by (simp add: expected_history_def example_lifecycle_def map_filter_simps msg_from_def)
  have q: "expected_state example_lifecycle = Delivered"
    by (simp add: expected_state_def example_lifecycle_def map_filter_simps)
  have l: "length (filter recording example_lifecycle) = 6"
    by (simp add: recording_def example_lifecycle_def)
  have p: "toUtf8 (bytes32 ''Apples'') = ''Apples''"
    by (simp add: toUtf8_def bytes32_def)
  have c: "example_contract 14 = deployed example_delivered (\<lambda>owners. Inr ''0x02'') example_methods"
    by (simp add: example_contract_def example_chain_def)
  show ?thesis
    using hydration_after_transitions [OF example_lifecycle_run,
        of example_status_names "\<lambda>owners. Inr ''0x02''" example_methods 14]
    by (simp add: example_lifecycle_run h q l p c example_status_names_def)
qed

text \<open>Claim C8. Hydration reads the metadata, the status and the history (its length, then
  each record). It is fulfilled, with an order, exactly when all these reads succeed; when
  any one of them fails it is rejected, with an error and no order.\<close>

theorem hydration_is_all_or_nothing:
  "is_fulfilled (buildOrder labels c addr) = all_reads_succeed c
   \<and> is_rejected (buildOrder labels c addr) = (\<not> all_reads_succeed c)"
  by (auto simp add: buildOrder_def Let_def then_p_is_fulfilled then_p_is_rejected split_beta
      both_is_fulfilled both_is_rejected getHistory_is_fulfilled getHistory_is_rejected
      callbackToResolve_is_fulfilled callbackToResolve_is_rejected all_reads_succeed_def)

theorem hydration_is_all_or_nothing_witness:
  "is_fulfilled (buildOrder example_status_names (example_contract 13) 13)
   \<and> all_reads_succeed (example_contract 13)
   \<and> is_rejected (buildOrder example_status_names
                    ((example_contract 13)\<lparr> call_state := Inl (Transport ''timeout'') \<rparr>) 13)
   \<and> is_rejected (buildOrder example_status_names
                    ((example_contract 13)\<lparr> call_history := (\<lambda>i. Inl (Transport ''timeout'')) \<rparr>) 13)"
proof -
  have a: "all_reads_succeed (example_contract 13)"
    by (simp add: all_reads_succeed_def history_reads_succeed_def example_contract_def
        example_chain_def deployed_def getHistoryLength_def example_approved_eval
        sequentialArray_def)
  have b: "\<not> all_reads_succeed ((example_contract 13)\<lparr> call_state := Inl (Transport ''timeout'') \<rparr>)"
    by (simp add: all_reads_succeed_def)
  have c: "\<not> all_reads_succeed
              ((example_contract 13)\<lparr> call_history := (\<lambda>i. Inl (Transport ''timeout'')) \<rparr>)"
    by (simp add: all_reads_succeed_def history_reads_succeed_def example_contract_def
        example_chain_def deployed_def getHistoryLength_def example_approved_eval
        sequentialArray_def)
  show ?thesis
    using hydration_is_all_or_nothing [of example_status_names "example_contract 13" 13]
      hydration_is_all_or_nothing [of example_status_names
        "(example_contract 13)\<lparr> call_state := Inl (Transport ''timeout'') \<rparr>" 13]
      hydration_is_all_or_nothing [of example_status_names
        "(example_contract 13)\<lparr> call_history := (\<lambda>i. Inl (Transport ''timeout'')) \<rparr>" 13]
      a b c
    by simp
qed

subsection \<open>Sending an action\<close>

text \<open>The four outcomes of \<^verbatim>\<open>sendOrder\<close> when \<^verbatim>\<open>setOwners\<close> has gone through or failed.\<close>

lemma sendOrder_setOwners_fails:
  assumes "send_setOwners (contract order) (replicate 5 (from_account svc)) = Inl e"
  shows "sendOrder svc order methodName
           = \<lparr> returned = Pending, console_error = [], updatedOrderSource = [] \<rparr>"
  using assms by (simp add: sendOrder_def setOwners_svc_def callbackToResolve_def)

lemma sendOrder_unknown_method:
  assumes "send_setOwners (contract order) (replicate 5 (from_account svc)) = Inr h"
    and "send_method (contract order) methodName = None"
  shows "sendOrder svc order methodName
           = \<lparr> returned = Pending, console_error = [], updatedOrderSource = [] \<rparr>"
  using assms by (simp add: sendOrder_def setOwners_svc_def callbackToResolve_def)

lemma sendOrder_transition_fails:
  assumes "send_setOwners (contract order) (replicate 5 (from_account svc)) = Inr h"
    and "send_method (contract order) methodName = Some (Inl e)"
  shows "sendOrder svc order methodName
           = \<lparr> returned = Fulfilled None, console_error = [e], updatedOrderSource = [] \<rparr>"
  using assms by (simp add: sendOrder_def setOwners_svc_def callbackToResolve_def)

lemma sendOrder_hydration_fails:
  assumes "send_setOwners (contract order) (replicate 5 (from_account svc)) = Inr h"
    and "send_method (contract order) methodName = Some (Inr tx)"
    and "getOrderByAddress svc (order_id order) = Rejected e"
  shows "sendOrder svc order methodName
           = \<lparr> returned = Fulfilled None, console_error = [e], updatedOrderSource = [] \<rparr>"
  using assms by (simp add: sendOrder_def setOwners_svc_def callbackToResolve_def)

lemma sendOrder_succeeds:
  assumes "send_setOwners (contract order) (replicate 5 (from_account svc)) = Inr h"
    and "send_method (contract order) methodName = Some (Inr tx)"
    and "getOrderByAddress svc (order_id order) = Fulfilled updated"
  shows "sendOrder svc order methodName
           = \<lparr> returned = Fulfilled (Some updated), console_error = [],
               updatedOrderSource = [updated] \<rparr>"
  using assms by (simp add: sendOrder_def setOwners_svc_def callbackToResolve_def)

text \<open>Claim C9 says that a failure of \<^verbatim>\<open>setOwners\<close> is caught and logged. On an order
  whose contract instance cannot be reached, \<^verbatim>\<open>setOwners\<close> fails, and \<^verbatim>\<open>sendOrder\<close>
  writes nothing with \<^verbatim>\<open>console.error\<close>, publishes nothing, and returns a promise that
  never settles: the handler of \<^verbatim>\<open>catch\<close> does not see this failure.\<close>

theorem sendOrder_setOwners_failure_is_not_logged:
  "send_setOwners (contract ((example_hydrated 13)\<lparr> contract := unreachable_contract \<rparr>))
       (replicate 5 (from_account example_service)) = Inl (Transport ''connection refused'')
   \<and> sendOrder example_service ((example_hydrated 13)\<lparr> contract := unreachable_contract \<rparr>) ''validated''
       = \<lparr> returned = Pending, console_error = [], updatedOrderSource = [] \<rparr>"
  by (simp add: sendOrder_def setOwners_svc_def callbackToResolve_def unreachable_contract_def)

end
